theory Spec2Isabelle
  imports Main "HOL-Library.Word"
begin

section \<open>JavaScript strings and numbers\<close>

text \<open>
  Strings of the program are modelled as \<open>string\<close>, restricted to ASCII: addresses, hashes,
  nonces and amounts are all ASCII, and on ASCII one \<open>char\<close> is one UTF-16 code unit, so
  \<open>length\<close> is JavaScript's \<open>.length\<close>. A \<open>bigint\<close> is an \<open>int\<close>. A \<open>number\<close> that
  holds a count of seconds, blocks or confirmations is an \<open>int\<close> as well: the model covers
  the integral values below \<open>2 ^ 53\<close>, on which \<open>Number(bigint)\<close> and \<open>BigInt(number)\<close> are
  the identity.
\<close>

definition toLowerCase_char :: "char \<Rightarrow> char" where
  "toLowerCase_char c =
     (case map_of (zip ''ABCDEFGHIJKLMNOPQRSTUVWXYZ'' ''abcdefghijklmnopqrstuvwxyz'') c of
        None \<Rightarrow> c
      | Some l \<Rightarrow> l)"

definition toLowerCase :: "string \<Rightarrow> string" where
  "toLowerCase s = map toLowerCase_char s"

definition padStart :: "nat \<Rightarrow> char \<Rightarrow> string \<Rightarrow> string" where
  \<comment> \<open>\<open>s.padStart(n, c)\<close> with a one-character filler: never truncates.\<close>
  "padStart n c s = replicate (n - length s) c @ s"

definition padEnd :: "nat \<Rightarrow> char \<Rightarrow> string \<Rightarrow> string" where
  "padEnd n c s = s @ replicate (n - length s) c"

definition digit_char :: "nat \<Rightarrow> char" where
  "digit_char d = (if d < 16 then ''0123456789abcdef'' ! d else CHR ''?'')"

function digits :: "nat \<Rightarrow> nat \<Rightarrow> string" where
  \<comment> \<open>the digits of a natural number in radix \<open>b\<close>, most significant first, lower case\<close>
  "digits b n = (if b < 2 \<or> n < b then [digit_char n] else digits b (n div b) @ [digit_char (n mod b)])"
  by pat_completeness auto
termination
  by (relation "measure (\<lambda>(b, n). n)") auto

declare digits.simps [simp del]

definition toString_radix :: "nat \<Rightarrow> int \<Rightarrow> string" where
  \<comment> \<open>\<open>x.toString(b)\<close> of a bigint (and of an integral number below \<open>2 ^ 53\<close>)\<close>
  "toString_radix b x = (if x < 0 then CHR ''-'' # digits b (nat (- x)) else digits b (nat x))"

abbreviation toString :: "int \<Rightarrow> string" where
  "toString x \<equiv> toString_radix 10 x"

section \<open>eip3009-signer: building and validating transfer authorizations\<close>

record TransferAuthorization =
  auth_from :: string
  auth_to :: string
  auth_value :: int
  validAfter :: int
  validBefore :: int
  nonce :: string

record validation_result =
  valid :: bool
  error :: "string option"

definition unix_seconds :: "int \<Rightarrow> int" where
  \<comment> \<open>\<open>BigInt(Math.floor(Date.now() / 1000))\<close>, the clock reading \<open>Date.now()\<close> given in
      milliseconds\<close>
  "unix_seconds now_ms = now_ms div 1000"

definition validateTransferAuthorization :: "int \<Rightarrow> TransferAuthorization \<Rightarrow> validation_result" where
  "validateTransferAuthorization now_ms auth =
     (if auth_value auth \<le> 0 then
        \<lparr>valid = False, error = Some ''Transfer amount must be positive''\<rparr>
      else if auth_from auth = auth_to auth then
        \<lparr>valid = False, error = Some ''Cannot transfer to self''\<rparr>
      else
        let now = unix_seconds now_ms in
        if validBefore auth \<le> now then
          \<lparr>valid = False, error = Some ''Authorization has expired''\<rparr>
        else if validAfter auth > now then
          \<lparr>valid = False, error = Some ''Authorization not yet valid''\<rparr>
        else if length (nonce auth) \<noteq> 66 then
          \<lparr>valid = False, error = Some ''Invalid nonce format''\<rparr>
        else
          \<lparr>valid = True, error = None\<rparr>)"

section \<open>Network constants (cronos-constants)\<close>

definition CRONOS_NETWORK_MAINNET :: string where
  "CRONOS_NETWORK_MAINNET = ''cronos-mainnet''"

definition CRONOS_NETWORK_TESTNET :: string where
  "CRONOS_NETWORK_TESTNET = ''cronos-testnet''"

definition CRONOS_CHAIN_ID_MAINNET :: int where
  "CRONOS_CHAIN_ID_MAINNET = 25"

definition CRONOS_CHAIN_ID_TESTNET :: int where
  "CRONOS_CHAIN_ID_TESTNET = 338"

definition USDC_ADDRESS_MAINNET :: string where
  "USDC_ADDRESS_MAINNET = ''0xf951eC28187D9E5Ca673Da8FE6757E6f0Be5F77C''"

definition USDC_ADDRESS_TESTNET :: string where
  "USDC_ADDRESS_TESTNET = ''0xc01efAaF7C5C61bEbFAeb358E1161b537b8bC0e0''"

definition USDC_DECIMALS :: nat where
  "USDC_DECIMALS = 6"

definition CRO_ADDRESS :: string where
  "CRO_ADDRESS = ''0x0000000000000000000000000000000000000000''"

definition CRO_DECIMALS :: nat where
  "CRO_DECIMALS = 18"

definition getUsdcAddress :: "string \<Rightarrow> string" where
  "getUsdcAddress network =
     (if network = CRONOS_NETWORK_MAINNET then USDC_ADDRESS_MAINNET else USDC_ADDRESS_TESTNET)"

definition getChainId :: "string \<Rightarrow> int" where
  "getChainId network =
     (if network = CRONOS_NETWORK_MAINNET then CRONOS_CHAIN_ID_MAINNET else CRONOS_CHAIN_ID_TESTNET)"

definition isCronosNetwork :: "string \<Rightarrow> bool" where
  "isCronosNetwork network \<longleftrightarrow>
     network = CRONOS_NETWORK_MAINNET \<or> network = CRONOS_NETWORK_TESTNET"

section \<open>Decimal amounts: parseUnits and formatUnits\<close>

datatype exn =
    InvalidDecimalNumberError string
  | Error string

fun message :: "exn \<Rightarrow> string" where
  \<comment> \<open>\<open>error.message\<close>; for the library's error, its short message\<close>
  "message (InvalidDecimalNumberError v) = ''Number \"'' @ v @ ''\" is not a valid decimal number.''"
| "message (Error m) = m"

definition is_digit :: "char \<Rightarrow> bool" where
  "is_digit c \<longleftrightarrow> c \<in> set ''0123456789''"

definition digit_val :: "char \<Rightarrow> nat" where
  \<comment> \<open>the value of a decimal digit: its position in \<open>0123456789\<close>\<close>
  "digit_val c = length (takeWhile (\<lambda>d. d \<noteq> c) ''0123456789'')"

definition BigInt_digits :: "string \<Rightarrow> nat" where
  \<comment> \<open>\<open>BigInt(s)\<close> of a string of decimal digits; the empty string gives \<open>0n\<close>\<close>
  "BigInt_digits s = foldl (\<lambda>a c. 10 * a + digit_val c) 0 s"

definition trim_trailing_zeros :: "string \<Rightarrow> string" where
  \<comment> \<open>\<open>s.replace(/(0+)$/, '')\<close>\<close>
  "trim_trailing_zeros s = rev (dropWhile (\<lambda>c. c = CHR ''0'') (rev s))"

definition decimal_number_pattern :: "string \<Rightarrow> bool" where
  \<comment> \<open>the test of \<open>/^(-?)([0-9]*)\.?([0-9]*)$/\<close>: an optional sign, digits, an optional
      point, digits, and nothing else\<close>
  "decimal_number_pattern s =
     (let s1 = (if take 1 s = ''-'' then drop 1 s else s);
          s2 = dropWhile is_digit s1;
          s3 = (if take 1 s2 = ''.'' then drop 1 s2 else s2)
      in list_all is_digit s3)"

definition split_point :: "string \<Rightarrow> string \<times> string option" where
  \<comment> \<open>the first two parts of \<open>s.split('.')\<close>; the second is absent when \<open>s\<close> has no point\<close>
  "split_point s =
     (takeWhile (\<lambda>c. c \<noteq> CHR ''.'') s,
      case dropWhile (\<lambda>c. c \<noteq> CHR ''.'') s of
        [] \<Rightarrow> None
      | _ # r \<Rightarrow> Some (takeWhile (\<lambda>c. c \<noteq> CHR ''.'') r))"

definition rounds_up :: "string \<Rightarrow> bool" where
  \<comment> \<open>whether the decimal fraction \<open>0.right\<close> is at least one half\<close>
  "rounds_up right = (case right of [] \<Rightarrow> False | c # _ \<Rightarrow> 5 \<le> digit_val c)"

text \<open>
  Modelled from the spec: \<open>parseUnits\<close> and \<open>formatUnits\<close> are functions of the viem
  library, which the repository imports and does not contain. The spec asks for a conversion
  to base units by the asset's decimal scale in exact integer arithmetic. The model follows
  the library's algorithm on strings: the amount must be an optionally signed decimal number,
  otherwise the call throws; the fraction is padded with zeros to the scale, and a fraction
  longer than the scale is rounded half up at the scale (the library rounds the excess digits
  through a floating-point number, the model rounds them exactly).
\<close>

definition parseUnits :: "string \<Rightarrow> nat \<Rightarrow> exn + int" where
  \<comment> \<open>Modelled from the spec: viem's \<open>parseUnits(value, decimals)\<close>, not in the repository\<close>
  "parseUnits amount decimals =
     (if \<not> decimal_number_pattern amount then Inl (InvalidDecimalNumberError amount)
      else
        let (integer0, fraction_part) = split_point amount;
            fraction0 = (case fraction_part of None \<Rightarrow> ''0'' | Some f \<Rightarrow> f);
            negative = (take 1 integer0 = ''-'');
            integer1 = (if negative then drop 1 integer0 else integer0);
            fraction1 = trim_trailing_zeros fraction0;
            (integer, fraction) =
              (if decimals = 0 then
                 ((if rounds_up fraction1 then toString (int (BigInt_digits integer1) + 1)
                   else integer1), [])
               else if length fraction1 > decimals then
                 let left = take (decimals - 1) fraction1;
                     unit = take 1 (drop (decimals - 1) fraction1);
                     right = drop decimals fraction1;
                     rounded = BigInt_digits unit + (if rounds_up right then 1 else 0);
                     fraction2 =
                       (if rounded > 9
                        then padStart (length left + 1) (CHR ''0'')
                               (toString (int (BigInt_digits left) + 1) @ ''0'')
                        else left @ toString (int rounded));
                     (integer2, fraction3) =
                       (if length fraction2 > decimals
                        then (toString (int (BigInt_digits integer1) + 1), drop 1 fraction2)
                        else (integer1, fraction2))
                 in (integer2, take decimals fraction3)
               else (integer1, padEnd decimals (CHR ''0'') fraction1));
            magnitude = int (BigInt_digits (integer @ fraction))
        in Inr (if negative then - magnitude else magnitude))"

definition formatUnits :: "int \<Rightarrow> nat \<Rightarrow> string" where
  \<comment> \<open>Modelled from the spec: viem's \<open>formatUnits(value, decimals)\<close>, not in the repository\<close>
  "formatUnits v decimals =
     (let display0 = toString v;
          negative = (take 1 display0 = ''-'');
          display1 = (if negative then drop 1 display0 else display0);
          display = padStart decimals (CHR ''0'') display1;
          integer = take (length display - decimals) display;
          fraction = trim_trailing_zeros (drop (length display - decimals) display)
      in (if negative then ''-'' else []) @ (if integer = [] then ''0'' else integer) @
         (if fraction = [] then [] else ''.'' @ fraction))"

section \<open>eip3009-signer: building transfer authorizations\<close>

definition generateNonce :: "int \<Rightarrow> (nat \<Rightarrow> 8 word) \<Rightarrow> string" where
  \<comment> \<open>\<open>now_ms\<close> is the reading of \<open>Date.now()\<close>; \<open>rng i\<close> is byte \<open>i\<close> of the
      \<open>Uint8Array(24)\<close> filled by \<open>crypto.getRandomValues\<close>\<close>
  "generateNonce now_ms rng =
     (let timestamp = now_ms;
          randomBytes = map rng [0..<24];
          timestampHex = padStart 16 (CHR ''0'') (toString_radix 16 timestamp);
          randomHex = concat (map (\<lambda>b. padStart 2 (CHR ''0'') (toString_radix 16 (uint b))) randomBytes)
      in ''0x'' @ timestampHex @ randomHex)"

definition createTransferAuthorization ::
  "int \<Rightarrow> int \<Rightarrow> (nat \<Rightarrow> 8 word) \<Rightarrow> string \<Rightarrow> string \<Rightarrow> string \<Rightarrow> int option
     \<Rightarrow> exn + TransferAuthorization" where
  \<comment> \<open>\<open>now_ms\<close> is the clock read by the function itself, \<open>nonce_ms\<close> the later reading
      inside \<open>generateNonce\<close>; \<open>validityWindow\<close> is a whole number of seconds and
      defaults to one hour when absent\<close>
  "createTransferAuthorization now_ms nonce_ms rng from to amount validityWindow =
     (let window = (case validityWindow of None \<Rightarrow> 3600 | Some w \<Rightarrow> w);
          now = unix_seconds now_ms
      in case parseUnits amount 6 of
           Inl e \<Rightarrow> Inl e
         | Inr v \<Rightarrow>
             Inr \<lparr>auth_from = from, auth_to = to, auth_value = v, validAfter = 0,
                  validBefore = now + window, nonce = generateNonce nonce_ms rng\<rparr>)"

section \<open>cro-payment: direct transfers of the native asset\<close>

record CroTransaction =
  tx_from :: string
  tx_to :: string
  tx_value :: int
  chainId :: int
  tx_nonce :: "int option"
  gasLimit :: "int option"
  maxFeePerGas :: "int option"
  maxPriorityFeePerGas :: "int option"

definition buildCroTransaction :: "string \<Rightarrow> string \<Rightarrow> string \<Rightarrow> string \<Rightarrow> exn + CroTransaction" where
  "buildCroTransaction from to amountCro network =
     (case parseUnits amountCro CRO_DECIMALS of
        Inl e \<Rightarrow> Inl e
      | Inr v \<Rightarrow>
          Inr \<lparr>tx_from = from, tx_to = to, tx_value = v, chainId = getChainId network,
               tx_nonce = None, gasLimit = Some 21000, maxFeePerGas = None,
               maxPriorityFeePerGas = None\<rparr>)"

definition validateCroTransaction :: "CroTransaction \<Rightarrow> validation_result" where
  "validateCroTransaction transaction =
     (if tx_value transaction \<le> 0 then
        \<lparr>valid = False, error = Some ''Transfer amount must be positive''\<rparr>
      else if toLowerCase (tx_from transaction) = toLowerCase (tx_to transaction) then
        \<lparr>valid = False, error = Some ''Cannot transfer to self''\<rparr>
      else if tx_to transaction = CRO_ADDRESS then
        \<lparr>valid = False, error = Some ''Cannot transfer to zero address''\<rparr>
      else
        \<lparr>valid = True, error = None\<rparr>)"

datatype receipt_status = Status_success | Status_reverted

record TransactionReceipt =
  status :: receipt_status
  blockNumber :: int

record Transaction =
  t_to :: "string option"
  t_value :: int

text \<open>
  The chain-query capability returned by \<open>getPublicClient(network)\<close>. Each query is a remote
  read that can throw; a receipt or a transaction that the node does not know is \<open>None\<close>.
\<close>

record chain_client =
  getTransactionReceipt :: "string \<Rightarrow> exn + TransactionReceipt option"
  getTransaction :: "string \<Rightarrow> exn + Transaction option"
  getBlockNumber :: "exn + int"

record CroPaymentVerification =
  cv_valid :: bool
  cv_txHash :: "string option"
  cv_receipt :: "TransactionReceipt option"
  cv_error :: "string option"
  cv_reason :: "string option"

definition verifyCroPayment_body ::
  "chain_client \<Rightarrow> string \<Rightarrow> string \<Rightarrow> string \<Rightarrow> int \<Rightarrow> exn + CroPaymentVerification" where
  \<comment> \<open>the statements inside \<open>try\<close>; \<open>Inl\<close> is an exception that reaches \<open>catch\<close>\<close>
  "verifyCroPayment_body client txHash expectedRecipient expectedAmount minConfirmations =
     (case getTransactionReceipt client txHash of
        Inl e \<Rightarrow> Inl e
      | Inr None \<Rightarrow>
          Inr \<lparr>cv_valid = False, cv_txHash = None, cv_receipt = None,
               cv_error = Some ''Transaction not found'', cv_reason = None\<rparr>
      | Inr (Some receipt) \<Rightarrow>
          if status receipt \<noteq> Status_success then
            Inr \<lparr>cv_valid = False, cv_txHash = Some txHash, cv_receipt = Some receipt,
                 cv_error = Some ''Transaction failed'',
                 cv_reason = Some ''Transaction was reverted''\<rparr>
          else
            (case getTransaction client txHash of
               Inl e \<Rightarrow> Inl e
             | Inr None \<Rightarrow>
                 Inr \<lparr>cv_valid = False, cv_txHash = Some txHash, cv_receipt = None,
                      cv_error = Some ''Transaction details not found'', cv_reason = None\<rparr>
             | Inr (Some tx) \<Rightarrow>
                 if map_option toLowerCase (t_to tx) \<noteq> Some (toLowerCase expectedRecipient) then
                   Inr \<lparr>cv_valid = False, cv_txHash = Some txHash, cv_receipt = Some receipt,
                        cv_error = Some ''Invalid recipient'',
                        cv_reason = Some (''Expected '' @ expectedRecipient @ '', got '' @
                          (case t_to tx of None \<Rightarrow> ''null'' | Some a \<Rightarrow> a))\<rparr>
                 else
                   (case parseUnits expectedAmount CRO_DECIMALS of
                      Inl e \<Rightarrow> Inl e
                    | Inr expectedValue \<Rightarrow>
                        if t_value tx < expectedValue then
                          Inr \<lparr>cv_valid = False, cv_txHash = Some txHash,
                               cv_receipt = Some receipt,
                               cv_error = Some ''Insufficient amount'',
                               cv_reason = Some (''Expected '' @
                                 formatUnits expectedValue CRO_DECIMALS @ '' CRO, got '' @
                                 formatUnits (t_value tx) CRO_DECIMALS @ '' CRO'')\<rparr>
                        else
                          (case getBlockNumber client of
                             Inl e \<Rightarrow> Inl e
                           | Inr currentBlock \<Rightarrow>
                               let confirmations = currentBlock - blockNumber receipt in
                               if confirmations < minConfirmations then
                                 Inr \<lparr>cv_valid = False, cv_txHash = Some txHash,
                                      cv_receipt = Some receipt,
                                      cv_error = Some ''Insufficient confirmations'',
                                      cv_reason = Some (''Transaction has '' @
                                        toString confirmations @ '' confirmations, need '' @
                                        toString minConfirmations)\<rparr>
                               else
                                 Inr \<lparr>cv_valid = True, cv_txHash = Some txHash,
                                      cv_receipt = Some receipt, cv_error = None,
                                      cv_reason = None\<rparr>))))"

definition verifyCroPayment ::
  "(string \<Rightarrow> chain_client) \<Rightarrow> string \<Rightarrow> string \<Rightarrow> string \<Rightarrow> string \<Rightarrow> int option
     \<Rightarrow> CroPaymentVerification" where
  \<comment> \<open>\<open>getPublicClient\<close> gives the client of a network; an absent \<open>minConfirmations\<close>
      defaults to 2\<close>
  "verifyCroPayment getPublicClient txHash expectedRecipient expectedAmount network minConfirmations =
     (let minConf = (case minConfirmations of None \<Rightarrow> 2 | Some m \<Rightarrow> m);
          client = getPublicClient network
      in case verifyCroPayment_body client txHash expectedRecipient expectedAmount minConf of
           Inr result \<Rightarrow> result
         | Inl e \<Rightarrow>
             \<lparr>cv_valid = False, cv_txHash = None, cv_receipt = None,
              cv_error = Some ''Verification failed'', cv_reason = Some (message e)\<rparr>)"

section \<open>facilitator-client: the verify/settle exchange\<close>

record SignedTransferAuthorization = TransferAuthorization +
  signature :: string

record VerifyPaymentRequest =
  vq_network :: string
  vq_token :: string
  vq_authorization :: SignedTransferAuthorization

record VerifyPaymentResponse =
  vp_valid :: bool
  vp_reason :: "string option"
  vp_verificationId :: "string option"

record SettlePaymentRequest =
  sq_network :: string
  sq_token :: string
  sq_authorization :: SignedTransferAuthorization
  sq_verificationId :: "string option"

record SettlePaymentResponse =
  success :: bool
  sp_txHash :: "string option"
  sp_error :: "string option"
  sp_reason :: "string option"

text \<open>
  The JSON body that \<open>verifyPayment\<close> and \<open>settlePayment\<close> post: the integer fields as
  decimal strings; only the settle body carries a \<open>verificationId\<close> key.
\<close>

record request_body =
  b_network :: string
  b_token :: string
  b_from :: string
  b_to :: string
  b_value :: string
  b_validAfter :: string
  b_validBefore :: string
  b_nonce :: string
  b_signature :: string
  b_verificationId :: "string option"

datatype outbound_call = POST string request_body

definition ENDPOINT_VERIFY :: string where
  "ENDPOINT_VERIFY = ''/v2/x402/verify''"

definition ENDPOINT_SETTLE :: string where
  "ENDPOINT_SETTLE = ''/v2/x402/settle''"

text \<open>
  The settlement service as the client sees it through its \<open>fetch\<close> wrapper: for each
  endpoint, a request body is answered by the decoded response, or the call throws (timeout,
  connection failure, non-2xx status).
\<close>

record facilitator =
  answer_verify :: "request_body \<Rightarrow> exn + VerifyPaymentResponse"
  answer_settle :: "request_body \<Rightarrow> exn + SettlePaymentResponse"

definition authorization_body ::
  "string \<Rightarrow> string \<Rightarrow> SignedTransferAuthorization \<Rightarrow> string option \<Rightarrow> request_body" where
  "authorization_body network token authorization verificationId =
     \<lparr>b_network = network, b_token = token,
      b_from = auth_from authorization, b_to = auth_to authorization,
      b_value = toString (auth_value authorization),
      b_validAfter = toString (validAfter authorization),
      b_validBefore = toString (validBefore authorization),
      b_nonce = nonce authorization, b_signature = signature authorization,
      b_verificationId = verificationId\<rparr>"

text \<open>
  Each client method takes the list of outbound calls made so far and returns it extended by
  the call it makes, together with its result.
\<close>

definition verifyPayment ::
  "facilitator \<Rightarrow> VerifyPaymentRequest \<Rightarrow> outbound_call list
     \<Rightarrow> (exn + VerifyPaymentResponse) \<times> outbound_call list" where
  "verifyPayment fac request calls =
     (let body = authorization_body (vq_network request) (vq_token request)
                   (vq_authorization request) None
      in (answer_verify fac body, calls @ [POST ENDPOINT_VERIFY body]))"

definition settlePayment ::
  "facilitator \<Rightarrow> SettlePaymentRequest \<Rightarrow> outbound_call list
     \<Rightarrow> (exn + SettlePaymentResponse) \<times> outbound_call list" where
  "settlePayment fac request calls =
     (let body = authorization_body (sq_network request) (sq_token request)
                   (sq_authorization request) (sq_verificationId request)
      in (answer_settle fac body, calls @ [POST ENDPOINT_SETTLE body]))"

definition verifyAndSettle ::
  "facilitator \<Rightarrow> string \<Rightarrow> string \<Rightarrow> SignedTransferAuthorization \<Rightarrow> outbound_call list
     \<Rightarrow> (exn + SettlePaymentResponse) \<times> outbound_call list" where
  "verifyAndSettle fac network token authorization calls =
     (case verifyPayment fac
             \<lparr>vq_network = network, vq_token = token, vq_authorization = authorization\<rparr> calls of
        (Inl e, calls1) \<Rightarrow> (Inl e, calls1)
      | (Inr verifyResult, calls1) \<Rightarrow>
          if \<not> vp_valid verifyResult then
            (Inr \<lparr>success = False, sp_txHash = None, sp_error = Some ''Verification failed'',
                  sp_reason = vp_reason verifyResult\<rparr>, calls1)
          else
            settlePayment fac
              \<lparr>sq_network = network, sq_token = token, sq_authorization = authorization,
               sq_verificationId = vp_verificationId verifyResult\<rparr> calls1)"

definition settle_calls :: "outbound_call list \<Rightarrow> outbound_call list" where
  \<comment> \<open>the calls of a log that went to the settle endpoint\<close>
  "settle_calls calls = filter (\<lambda>c. case c of POST endpoint body \<Rightarrow> endpoint = ENDPOINT_SETTLE) calls"

section \<open>Payment strategy: the capability check\<close>

record user_wallet =
  w_userId :: string
  w_walletAddress :: string
  w_isActive :: bool

definition userHasWallets :: "user_wallet list \<Rightarrow> string \<Rightarrow> bool" where
  \<comment> \<open>the query for at most one active wallet row of the user, and \<open>rows.length > 0\<close>;
      \<open>db\<close> is the content of the wallet table\<close>
  "userHasWallets db userId =
     (let rows = take 1 (filter (\<lambda>w. w_userId w = userId \<and> w_isActive w) db)
      in length rows > 0)"

record CronosPaymentRequirements =
  pr_network :: string
  pr_maxAmountRequired :: string
  pr_payTo :: string
  pr_asset :: string

definition canSign :: "user_wallet list \<Rightarrow> string \<Rightarrow> CronosPaymentRequirements \<Rightarrow> bool" where
  "canSign db user_id paymentRequirement =
     (if \<not> userHasWallets db user_id then False
      else
        let network = pr_network paymentRequirement in
        if \<not> isCronosNetwork network then False
        else
          let asset = pr_asset paymentRequirement;
              usdcAddress = getUsdcAddress network;
              isUsdc = (toLowerCase asset = toLowerCase usdcAddress);
              isCro = (asset = CRO_ADDRESS \<or> asset = ''0x0'' \<or>
                       toLowerCase asset = toLowerCase CRO_ADDRESS)
          in isUsdc \<or> isCro)"

section \<open>Reading hexadecimal strings\<close>

definition is_hex_digit :: "char \<Rightarrow> bool" where
  "is_hex_digit c \<longleftrightarrow> c \<in> set ''0123456789abcdef''"

definition hex_digit_val :: "char \<Rightarrow> nat" where
  \<comment> \<open>the value of a lower-case hexadecimal digit: its position in \<open>0123456789abcdef\<close>\<close>
  "hex_digit_val c = length (takeWhile (\<lambda>d. d \<noteq> c) ''0123456789abcdef'')"

definition parseInt_hex :: "string \<Rightarrow> nat" where
  \<comment> \<open>\<open>parseInt(s, 16)\<close> of a string of lower-case hexadecimal digits, as the tests read
      the timestamp back from a nonce\<close>
  "parseInt_hex s = foldl (\<lambda>a c. 16 * a + hex_digit_val c) 0 s"

section \<open>Example values\<close>

text \<open>Concrete inputs at which the theorems below are instantiated.\<close>

definition payer_address :: string where
  "payer_address = ''0xf39Fd6e51aad88F6F4ce6aB8827279cffFb92266''"

definition recipient_address :: string where
  "recipient_address = ''0x742D35cC6634C0532925A3b844bc9E7595f0BEb8''"

definition zero_nonce :: string where
  "zero_nonce = ''0x'' @ replicate 64 (CHR ''0'')"

definition signed_authorization :: SignedTransferAuthorization where
  "signed_authorization =
     \<lparr>auth_from = payer_address, auth_to = recipient_address, auth_value = 10000,
      validAfter = 0, validBefore = 1700003600, nonce = zero_nonce,
      signature = ''0x'' @ replicate 130 (CHR ''1'')\<rparr>"

definition settled_response :: SettlePaymentResponse where
  "settled_response =
     \<lparr>success = True, sp_txHash = Some ''0x1234'', sp_error = None, sp_reason = None\<rparr>"

definition accepting_facilitator :: facilitator where
  "accepting_facilitator =
     \<lparr>answer_verify = (\<lambda>body. Inr \<lparr>vp_valid = True, vp_reason = None,
                                      vp_verificationId = Some ''verification-1''\<rparr>),
      answer_settle = (\<lambda>body. Inr settled_response)\<rparr>"

definition rejecting_facilitator :: facilitator where
  "rejecting_facilitator =
     \<lparr>answer_verify = (\<lambda>body. Inr \<lparr>vp_valid = False, vp_reason = Some ''Nonce already used'',
                                      vp_verificationId = None\<rparr>),
      answer_settle = (\<lambda>body. Inr settled_response)\<rparr>"

definition mined_receipt :: TransactionReceipt where
  "mined_receipt = \<lparr>status = Status_success, blockNumber = 100\<rparr>"

definition chain_at :: "int \<Rightarrow> int \<Rightarrow> string \<Rightarrow> chain_client" where
  \<comment> \<open>a chain whose head is block \<open>head\<close> and on which every hash is a successful transfer
      of \<open>paid\<close> base units to the recipient, mined in block 100\<close>
  "chain_at head paid network =
     \<lparr>getTransactionReceipt = (\<lambda>hash. Inr (Some mined_receipt)),
      getTransaction = (\<lambda>hash. Inr (Some \<lparr>t_to = Some (toLowerCase recipient_address),
                                            t_value = paid\<rparr>)),
      getBlockNumber = Inr head\<rparr>"

definition zero_bytes :: "nat \<Rightarrow> 8 word" where
  "zero_bytes i = 0"

section \<open>Facts about strings and digits\<close>

lemma length_padStart: "length (padStart n c s) = max n (length s)"
  by (simp add: padStart_def)

lemma length_digits_bound: "0 < k \<Longrightarrow> n < 16 ^ k \<Longrightarrow> length (digits 16 n) \<le> k"
proof (induction k arbitrary: n)
  case 0
  then show ?case by simp
next
  case (Suc k)
  show ?case
  proof (cases "n < 16")
    case True
    then show ?thesis by (simp add: digits.simps)
  next
    case False
    then have k: "0 < k" using Suc.prems by (cases k) auto
    have "n div 16 < 16 ^ k"
      using Suc.prems(2) by (simp add: less_mult_imp_div_less mult.commute)
    with k have "length (digits 16 (n div 16)) \<le> k" by (rule Suc.IH)
    with False show ?thesis by (subst digits.simps) simp
  qed
qed

lemma length_timestampHex:
  assumes "\<bar>t\<bar> \<le> 8640000000000000"
  shows "length (padStart 16 (CHR ''0'') (toString_radix 16 t)) = 16"
proof -
  have "nat \<bar>t\<bar> < 16 ^ 14" using assms by simp
  then have "length (digits 16 (nat \<bar>t\<bar>)) \<le> 14"
    by (intro length_digits_bound) simp_all
  then have "length (toString_radix 16 t) \<le> 15"
    by (auto simp: toString_radix_def abs_if split: if_splits)
  then show ?thesis by (simp add: length_padStart)
qed

lemma length_byteHex: "length (padStart 2 (CHR ''0'') (toString_radix 16 (uint (b :: 8 word)))) = 2"
proof -
  have "unat b < 16 ^ 2" using unsigned_less [of b] by simp
  then have "length (digits 16 (unat b)) \<le> 2"
    by (intro length_digits_bound) simp_all
  then have "length (toString_radix 16 (uint b)) \<le> 2"
    by (simp add: toString_radix_def)
  then show ?thesis by (simp add: length_padStart)
qed

lemma length_concat_const:
  "(\<And>x. x \<in> set xs \<Longrightarrow> length (f x) = k) \<Longrightarrow> length (concat (map f xs)) = k * length xs"
  by (induction xs) simp_all

section \<open>Evaluating the amount conversion\<close>

lemma replicate_numeral: "replicate (numeral k) x = x # replicate (pred_numeral k) x"
  by (simp add: numeral_eq_Suc)

lemmas parseUnits_eval =
  parseUnits_def decimal_number_pattern_def is_digit_def split_point_def
  trim_trailing_zeros_def rounds_up_def BigInt_digits_def digit_val_def padEnd_def
  padStart_def toString_radix_def digits.simps digit_char_def Let_def replicate_numeral

lemma parseUnits_1_6: "parseUnits ''1'' 6 = Inr 1000000"
  by (simp add: parseUnits_eval)

lemma parseUnits_1_18: "parseUnits ''1'' 18 = Inr 1000000000000000000"
  by (simp add: parseUnits_eval)

lemma parseUnits_0_6: "parseUnits ''0'' 6 = Inr 0"
  by (simp add: parseUnits_eval)

lemma parseUnits_tenth_18: "parseUnits ''0.1'' 18 = Inr 100000000000000000"
  by (simp add: parseUnits_eval)

lemma formatUnits_tenth_18: "formatUnits 100000000000000000 18 = ''0.1''"
  by (simp add: formatUnits_def parseUnits_eval)

lemma formatUnits_twentieth_18: "formatUnits 50000000000000000 18 = ''0.05''"
  by (simp add: formatUnits_def parseUnits_eval)

lemma toLowerCase_recipient:
  "toLowerCase (toLowerCase recipient_address) = toLowerCase recipient_address"
  by (simp add: recipient_address_def toLowerCase_def toLowerCase_char_def)

lemma BigInt_digits_snoc: "BigInt_digits (xs @ [c]) = 10 * BigInt_digits xs + digit_val c"
  by (simp add: BigInt_digits_def)

lemma BigInt_digits_append:
  "BigInt_digits (xs @ ys) = BigInt_digits xs * 10 ^ length ys + BigInt_digits ys"
proof (induction ys rule: rev_induct)
  case Nil
  then show ?case by (simp add: BigInt_digits_def)
next
  case (snoc c ys)
  have "BigInt_digits (xs @ ys @ [c]) = 10 * BigInt_digits (xs @ ys) + digit_val c"
    using BigInt_digits_snoc [of "xs @ ys" c] by simp
  then show ?case
    by (simp add: snoc.IH BigInt_digits_snoc algebra_simps)
qed

lemma BigInt_digits_zeros: "BigInt_digits (replicate k (CHR ''0'')) = 0"
proof (induction k)
  case 0
  then show ?case by (simp add: BigInt_digits_def)
next
  case (Suc k)
  have "replicate (Suc k) (CHR ''0'') = replicate k (CHR ''0'') @ [CHR ''0'']"
    by (simp add: replicate_append_same)
  then show ?case
    by (simp only: BigInt_digits_snoc Suc.IH) (simp add: digit_val_def)
qed

lemma takeWhile_eq_replicate:
  "takeWhile (\<lambda>c. c = x) xs = replicate (length (takeWhile (\<lambda>c. c = x) xs)) x"
  by (induction xs) simp_all

lemma trim_trailing_zeros_decomp:
  "\<exists>m. s = trim_trailing_zeros s @ replicate m (CHR ''0'')"
proof -
  let ?P = "\<lambda>c. c = CHR ''0''"
  have "rev s = takeWhile ?P (rev s) @ dropWhile ?P (rev s)"
    by simp
  then have "s = rev (dropWhile ?P (rev s)) @ rev (takeWhile ?P (rev s))"
    by (metis rev_append rev_rev_ident)
  moreover have "rev (takeWhile ?P (rev s)) =
      replicate (length (takeWhile ?P (rev s))) (CHR ''0'')"
    by (subst takeWhile_eq_replicate) simp
  ultimately show ?thesis
    unfolding trim_trailing_zeros_def by metis
qed

lemma is_digit_not_sign: "is_digit c \<Longrightarrow> c \<noteq> CHR ''-'' \<and> c \<noteq> CHR ''.''"
  by (auto simp: is_digit_def)

lemma digits_no_sign: "list_all is_digit s \<Longrightarrow> take 1 s \<noteq> ''-''"
  by (cases s) (auto dest: is_digit_not_sign)

lemma digits_takeWhile_point:
  "list_all is_digit s \<Longrightarrow> takeWhile (\<lambda>c. c \<noteq> CHR ''.'') s = s"
  by (induction s) (auto dest: is_digit_not_sign)

lemma digits_dropWhile_point:
  "list_all is_digit s \<Longrightarrow> dropWhile (\<lambda>c. c \<noteq> CHR ''.'') s = []"
  by (induction s) (auto dest: is_digit_not_sign)

lemma digits_dropWhile_digit: "list_all is_digit s \<Longrightarrow> dropWhile is_digit s = []"
  by (induction s) auto

lemma scaled_fraction:
  assumes "length fp \<le> d"
  shows "BigInt_digits (padEnd d (CHR ''0'') (trim_trailing_zeros fp)) =
         BigInt_digits fp * 10 ^ (d - length fp)"
proof -
  obtain m where m: "fp = trim_trailing_zeros fp @ replicate m (CHR ''0'')"
    using trim_trailing_zeros_decomp by blast
  let ?t = "trim_trailing_zeros fp"
  have len: "length fp = length ?t + m"
    using arg_cong [OF m, of length] by simp
  have whole: "BigInt_digits fp = BigInt_digits ?t * 10 ^ m"
    using arg_cong [OF m, of BigInt_digits]
    by (simp add: BigInt_digits_append BigInt_digits_zeros)
  have "BigInt_digits (padEnd d (CHR ''0'') ?t) = BigInt_digits ?t * 10 ^ (d - length ?t)"
    by (simp add: padEnd_def BigInt_digits_append BigInt_digits_zeros)
  also have "d - length ?t = m + (d - length fp)"
    using assms len by simp
  finally show ?thesis
    by (simp add: whole power_add)
qed

lemma length_padEnd_trim:
  "length fp \<le> d \<Longrightarrow> length (padEnd d (CHR ''0'') (trim_trailing_zeros fp)) = d"
proof -
  assume le: "length fp \<le> d"
  obtain m where m: "fp = trim_trailing_zeros fp @ replicate m (CHR ''0'')"
    using trim_trailing_zeros_decomp by blast
  have "length (trim_trailing_zeros fp) \<le> length fp"
    using arg_cong [OF m, of length] by simp
  with le show ?thesis by (simp add: padEnd_def)
qed

lemma parseUnits_plain_decimal:
  assumes ip: "list_all is_digit ip" and fp: "list_all is_digit fp" and le: "length fp \<le> d"
    and amount: "amount = ip @ ''.'' @ fp \<or> (fp = [] \<and> amount = ip)"
  shows "parseUnits amount d =
         Inr (int (BigInt_digits ip) * 10 ^ d + int (BigInt_digits fp) * 10 ^ (d - length fp))"
proof -
  have pattern: "decimal_number_pattern amount"
    using amount
  proof
    assume a: "amount = ip @ ''.'' @ fp"
    have "take 1 amount \<noteq> ''-''"
      using ip a by (cases ip) (auto dest: is_digit_not_sign)
    moreover have "dropWhile is_digit amount = CHR ''.'' # fp"
      using ip a by (simp add: dropWhile_append3 is_digit_def digits_dropWhile_digit)
    ultimately show ?thesis
      using fp by (simp add: decimal_number_pattern_def Let_def)
  next
    assume a: "fp = [] \<and> amount = ip"
    then show ?thesis
      using ip digits_no_sign [OF ip]
      by (simp add: decimal_number_pattern_def Let_def digits_dropWhile_digit)
  qed
  have trimmed: "trim_trailing_zeros ''0'' = []"
    by (simp add: trim_trailing_zeros_def)
  have split: "fst (split_point amount) = ip \<and>
      trim_trailing_zeros (case snd (split_point amount) of None \<Rightarrow> ''0'' | Some f \<Rightarrow> f) =
        trim_trailing_zeros fp"
    using amount
  proof
    assume a: "amount = ip @ ''.'' @ fp"
    have "takeWhile (\<lambda>c. c \<noteq> CHR ''.'') amount = ip"
      using ip a by (auto simp: takeWhile_append digits_takeWhile_point list_all_iff
          dest: is_digit_not_sign)
    moreover have "dropWhile (\<lambda>c. c \<noteq> CHR ''.'') amount = CHR ''.'' # fp"
      using ip a by (simp add: dropWhile_append3 digits_dropWhile_point)
    ultimately show ?thesis
      using fp by (simp add: split_point_def digits_takeWhile_point)
  next
    assume a: "fp = [] \<and> amount = ip"
    then show ?thesis
      using ip by (simp add: split_point_def digits_takeWhile_point digits_dropWhile_point
          trimmed trim_trailing_zeros_def)
  qed
  have sign: "take 1 ip \<noteq> ''-''"
    using ip by (rule digits_no_sign)
  have short: "\<not> d < length (trim_trailing_zeros fp)"
  proof -
    obtain m where m: "fp = trim_trailing_zeros fp @ replicate m (CHR ''0'')"
      using trim_trailing_zeros_decomp by blast
    have "length (trim_trailing_zeros fp) \<le> length fp"
      using arg_cong [OF m, of length] by simp
    with le show ?thesis by simp
  qed
  have magnitude: "BigInt_digits (ip @ padEnd d (CHR ''0'') (trim_trailing_zeros fp)) =
      BigInt_digits ip * 10 ^ d + BigInt_digits fp * 10 ^ (d - length fp)"
    by (simp add: BigInt_digits_append length_padEnd_trim [OF le] scaled_fraction [OF le])
  show ?thesis
  proof (cases "d = 0")
    case True
    have empty: "fp = []"
      using le True by simp
    then have nil: "trim_trailing_zeros fp = []"
      by (simp add: trim_trailing_zeros_def)
    have zero: "BigInt_digits [] = 0"
      by (simp add: BigInt_digits_def)
    show ?thesis
      using pattern split sign True empty nil zero
      by (simp add: parseUnits_def Let_def case_prod_beta rounds_up_def)
  next
    case False
    then show ?thesis
      using pattern split sign short magnitude
      by (simp add: parseUnits_def Let_def case_prod_beta)
  qed
qed

section \<open>Facts about the nonce\<close>

lemma distinct_hex_digits: "distinct ''0123456789abcdef''"
  by simp

lemma is_hex_digit_digit_char: "d < 16 \<Longrightarrow> is_hex_digit (digit_char d)"
  by (simp add: is_hex_digit_def digit_char_def del: set_simps)

lemma hex_digit_val_digit_char:
  assumes "d < 16"
  shows "hex_digit_val (digit_char d) = d"
proof -
  let ?hex = "''0123456789abcdef''"
  have len: "d < length ?hex"
    using assms by simp
  have "takeWhile (\<lambda>c. c \<noteq> ?hex ! d) ?hex = take d ?hex"
  proof (rule takeWhile_eq_take_P_nth)
    show "\<And>i. i < d \<Longrightarrow> i < length ?hex \<Longrightarrow> ?hex ! i \<noteq> ?hex ! d"
      using len distinct_hex_digits by (simp only: nth_eq_iff_index_eq)
    show "d < length ?hex \<Longrightarrow> \<not> ?hex ! d \<noteq> ?hex ! d"
      by simp
  qed
  then have "length (takeWhile (\<lambda>c. c \<noteq> ?hex ! d) ?hex) = length (take d ?hex)"
    by (rule arg_cong)
  also have "\<dots> = d"
    using len by simp
  finally have "length (takeWhile (\<lambda>c. c \<noteq> ?hex ! d) ?hex) = d" .
  then show ?thesis
    using assms by (simp only: hex_digit_val_def digit_char_def if_True)
qed

lemma parseInt_hex_snoc: "parseInt_hex (xs @ [c]) = 16 * parseInt_hex xs + hex_digit_val c"
  by (simp add: parseInt_hex_def)

lemma digits_16_hex: "list_all is_hex_digit (digits 16 n) \<and> parseInt_hex (digits 16 n) = n"
proof (induction n rule: less_induct)
  case (less n)
  show ?case
  proof (cases "n < 16")
    case True
    then have "digits 16 n = [digit_char n]"
      by (simp add: digits.simps)
    with True show ?thesis
      using parseInt_hex_snoc [of "[]" "digit_char n"]
      by (simp add: is_hex_digit_digit_char hex_digit_val_digit_char parseInt_hex_def)
  next
    case False
    then have unfold: "digits 16 n = digits 16 (n div 16) @ [digit_char (n mod 16)]"
      by (subst digits.simps) simp
    have "n div 16 < n"
      using False by simp
    then have IH: "list_all is_hex_digit (digits 16 (n div 16))"
      "parseInt_hex (digits 16 (n div 16)) = n div 16"
      using less.IH by simp_all
    have low: "n mod 16 < 16"
      by simp
    show ?thesis
      unfolding unfold
      using IH by (simp add: parseInt_hex_snoc is_hex_digit_digit_char [OF low]
          hex_digit_val_digit_char [OF low])
  qed
qed

lemma parseInt_hex_zeros: "parseInt_hex (replicate k (CHR ''0'') @ s) = parseInt_hex s"
proof -
  have "foldl (\<lambda>a c. 16 * a + hex_digit_val c) 0 (replicate k (CHR ''0'')) = 0"
    by (induction k) (simp_all add: hex_digit_val_def)
  then show ?thesis
    by (simp add: parseInt_hex_def)
qed

lemma padStart_hex:
  assumes "list_all is_hex_digit s"
  shows "list_all is_hex_digit (padStart n (CHR ''0'') s) \<and>
         parseInt_hex (padStart n (CHR ''0'') s) = parseInt_hex s"
proof -
  have "list_all is_hex_digit (replicate k (CHR ''0''))" for k
    by (induction k) (simp_all add: is_hex_digit_def)
  with assms show ?thesis
    by (simp add: padStart_def parseInt_hex_zeros)
qed

lemma timestampHex_facts:
  assumes "0 \<le> t" and "t \<le> 8640000000000000"
  shows "length (padStart 16 (CHR ''0'') (toString_radix 16 t)) = 16 \<and>
         list_all is_hex_digit (padStart 16 (CHR ''0'') (toString_radix 16 t)) \<and>
         int (parseInt_hex (padStart 16 (CHR ''0'') (toString_radix 16 t))) = t"
proof -
  have range: "\<bar>t\<bar> \<le> 8640000000000000"
    using assms by simp
  have plain: "toString_radix 16 t = digits 16 (nat t)"
    using assms(1) by (simp add: toString_radix_def)
  show ?thesis
    using length_timestampHex [OF range] assms(1) digits_16_hex [of "nat t"]
      padStart_hex [of "digits 16 (nat t)" 16]
    by (simp add: plain)
qed

lemma byteHex_facts:
  "length (padStart 2 (CHR ''0'') (toString_radix 16 (uint (b :: 8 word)))) = 2 \<and>
   list_all is_hex_digit (padStart 2 (CHR ''0'') (toString_radix 16 (uint b))) \<and>
   parseInt_hex (padStart 2 (CHR ''0'') (toString_radix 16 (uint b))) = unat b"
proof -
  have plain: "toString_radix 16 (uint b) = digits 16 (unat b)"
    by (simp add: toString_radix_def)
  show ?thesis
    using length_byteHex [of b] digits_16_hex [of "unat b"]
      padStart_hex [of "digits 16 (unat b)" 2]
    by (simp add: plain)
qed

lemma concat_chunk:
  assumes "\<And>x. length (f x) = k" and "i < length xs"
  shows "take k (drop (k * i) (concat (map f xs))) = f (xs ! i)"
  using assms(2)
proof (induction xs arbitrary: i)
  case Nil
  then show ?case by simp
next
  case (Cons x xs)
  show ?case
  proof (cases i)
    case 0
    then show ?thesis by (simp add: assms(1))
  next
    case (Suc j)
    with Cons.prems have "j < length xs" by simp
    then have "take k (drop (k * j) (concat (map f xs))) = f (xs ! j)"
      by (rule Cons.IH)
    with Suc show ?thesis by (simp add: assms(1))
  qed
qed

lemma list_all_concat_map:
  "(\<And>x. list_all P (f x)) \<Longrightarrow> list_all P (concat (map f xs))"
  by (induction xs) simp_all

lemma generateNonce_composition:
  assumes "0 \<le> nonce_ms" and "nonce_ms \<le> 8640000000000000"
  shows "\<exists>timestampHex randomHex.
           generateNonce nonce_ms rng = ''0x'' @ timestampHex @ randomHex \<and>
           length timestampHex = 16 \<and> length randomHex = 48 \<and>
           list_all is_hex_digit timestampHex \<and> list_all is_hex_digit randomHex \<and>
           int (parseInt_hex timestampHex) = nonce_ms \<and>
           map (\<lambda>i. parseInt_hex (take 2 (drop (2 * i) randomHex))) [0..<24] =
             map (\<lambda>i. unat (rng i)) [0..<24]"
proof -
  let ?byteHex = "\<lambda>b :: 8 word. padStart 2 (CHR ''0'') (toString_radix 16 (uint b))"
  let ?ts = "padStart 16 (CHR ''0'') (toString_radix 16 nonce_ms)"
  let ?rnd = "concat (map ?byteHex (map rng [0..<24]))"
  have nonce: "generateNonce nonce_ms rng = ''0x'' @ ?ts @ ?rnd"
    by (simp add: generateNonce_def Let_def)
  have len: "length ?rnd = 2 * length (map rng [0..<24])"
    by (rule length_concat_const) (simp add: byteHex_facts)
  have hex: "list_all is_hex_digit ?rnd"
    by (rule list_all_concat_map) (simp add: byteHex_facts)
  have chunk: "parseInt_hex (take 2 (drop (2 * i) ?rnd)) = unat (rng i)" if "i < 24" for i
  proof -
    have "take 2 (drop (2 * i) ?rnd) = ?byteHex (map rng [0..<24] ! i)"
      by (rule concat_chunk) (simp_all add: byteHex_facts that)
    then show ?thesis
      using that by (simp add: byteHex_facts)
  qed
  have bytes: "map (\<lambda>i. parseInt_hex (take 2 (drop (2 * i) ?rnd))) [0..<24] =
      map (\<lambda>i. unat (rng i)) [0..<24]"
  proof (rule map_cong)
    show "[0..<24] = [0..<24]"
      by (rule refl)
  next
    fix i :: nat
    assume "i \<in> set [0..<24]"
    then have "i < 24"
      by simp
    then show "parseInt_hex (take 2 (drop (2 * i) ?rnd)) = unat (rng i)"
      by (rule chunk)
  qed
  show ?thesis
    using nonce len hex bytes timestampHex_facts [OF assms]
    by (intro exI [of _ ?ts] exI [of _ ?rnd]) simp
qed

section \<open>Properties of the authorization validator\<close>

text \<open>
  C3. validateTransferAuthorization checks, in this order, positive value, non-self-transfer,
  not-expired, not-yet-valid and nonce length, and answers with the reason of the first check
  that fails: a value \<open>\<le> 0\<close> gives "Transfer amount must be positive"; otherwise equal
  \<open>from\<close> and \<open>to\<close> give "Cannot transfer to self"; otherwise \<open>validBefore \<le> now\<close> gives
  "Authorization has expired"; otherwise \<open>validAfter > now\<close> gives "Authorization not yet
  valid"; otherwise a nonce that is not the 66 characters of a 32-byte hex string gives
  "Invalid nonce format"; otherwise the result is valid and carries no error.
\<close>

theorem validateTransferAuthorization_first_violation:
  "(auth_value auth \<le> 0 \<longrightarrow>
      validateTransferAuthorization now_ms auth =
        \<lparr>valid = False, error = Some ''Transfer amount must be positive''\<rparr>) \<and>
   (0 < auth_value auth \<and> auth_from auth = auth_to auth \<longrightarrow>
      validateTransferAuthorization now_ms auth =
        \<lparr>valid = False, error = Some ''Cannot transfer to self''\<rparr>) \<and>
   (0 < auth_value auth \<and> auth_from auth \<noteq> auth_to auth \<and>
    validBefore auth \<le> unix_seconds now_ms \<longrightarrow>
      validateTransferAuthorization now_ms auth =
        \<lparr>valid = False, error = Some ''Authorization has expired''\<rparr>) \<and>
   (0 < auth_value auth \<and> auth_from auth \<noteq> auth_to auth \<and>
    unix_seconds now_ms < validBefore auth \<and> unix_seconds now_ms < validAfter auth \<longrightarrow>
      validateTransferAuthorization now_ms auth =
        \<lparr>valid = False, error = Some ''Authorization not yet valid''\<rparr>) \<and>
   (0 < auth_value auth \<and> auth_from auth \<noteq> auth_to auth \<and>
    unix_seconds now_ms < validBefore auth \<and> validAfter auth \<le> unix_seconds now_ms \<and>
    length (nonce auth) \<noteq> 66 \<longrightarrow>
      validateTransferAuthorization now_ms auth =
        \<lparr>valid = False, error = Some ''Invalid nonce format''\<rparr>) \<and>
   (0 < auth_value auth \<and> auth_from auth \<noteq> auth_to auth \<and>
    unix_seconds now_ms < validBefore auth \<and> validAfter auth \<le> unix_seconds now_ms \<and>
    length (nonce auth) = 66 \<longrightarrow>
      validateTransferAuthorization now_ms auth = \<lparr>valid = True, error = None\<rparr>)"
  by (simp add: validateTransferAuthorization_def Let_def)

theorem validateTransferAuthorization_first_violation_witness:
  "validateTransferAuthorization 1700000000000
     \<lparr>auth_from = ''0xA'', auth_to = ''0xA'', auth_value = 0, validAfter = 1800000000,
      validBefore = 5, nonce = ''0x123''\<rparr> =
     \<lparr>valid = False, error = Some ''Transfer amount must be positive''\<rparr> \<and>
   validateTransferAuthorization 1700000000000
     \<lparr>auth_from = ''0xA'', auth_to = ''0xA'', auth_value = 1, validAfter = 1800000000,
      validBefore = 5, nonce = ''0x123''\<rparr> =
     \<lparr>valid = False, error = Some ''Cannot transfer to self''\<rparr> \<and>
   validateTransferAuthorization 1700000000000
     \<lparr>auth_from = ''0xA'', auth_to = ''0xB'', auth_value = 1, validAfter = 1800000000,
      validBefore = 1700000000, nonce = ''0x123''\<rparr> =
     \<lparr>valid = False, error = Some ''Authorization has expired''\<rparr> \<and>
   validateTransferAuthorization 1700000000000
     \<lparr>auth_from = ''0xA'', auth_to = ''0xB'', auth_value = 1, validAfter = 1700000001,
      validBefore = 1700003600, nonce = ''0x123''\<rparr> =
     \<lparr>valid = False, error = Some ''Authorization not yet valid''\<rparr> \<and>
   validateTransferAuthorization 1700000000000
     \<lparr>auth_from = ''0xA'', auth_to = ''0xB'', auth_value = 1, validAfter = 0,
      validBefore = 1700003600, nonce = ''0x123''\<rparr> =
     \<lparr>valid = False, error = Some ''Invalid nonce format''\<rparr> \<and>
   validateTransferAuthorization 1700000000000
     \<lparr>auth_from = ''0xA'', auth_to = ''0xB'', auth_value = 1, validAfter = 0,
      validBefore = 1700003600, nonce = ''0x'' @ replicate 64 (CHR ''0'')\<rparr> =
     \<lparr>valid = True, error = None\<rparr>"
  using
    validateTransferAuthorization_first_violation [of
      "\<lparr>auth_from = ''0xA'', auth_to = ''0xA'', auth_value = 0, validAfter = 1800000000,
        validBefore = 5, nonce = ''0x123''\<rparr>" 1700000000000]
    validateTransferAuthorization_first_violation [of
      "\<lparr>auth_from = ''0xA'', auth_to = ''0xA'', auth_value = 1, validAfter = 1800000000,
        validBefore = 5, nonce = ''0x123''\<rparr>" 1700000000000]
    validateTransferAuthorization_first_violation [of
      "\<lparr>auth_from = ''0xA'', auth_to = ''0xB'', auth_value = 1, validAfter = 1800000000,
        validBefore = 1700000000, nonce = ''0x123''\<rparr>" 1700000000000]
    validateTransferAuthorization_first_violation [of
      "\<lparr>auth_from = ''0xA'', auth_to = ''0xB'', auth_value = 1, validAfter = 1700000001,
        validBefore = 1700003600, nonce = ''0x123''\<rparr>" 1700000000000]
    validateTransferAuthorization_first_violation [of
      "\<lparr>auth_from = ''0xA'', auth_to = ''0xB'', auth_value = 1, validAfter = 0,
        validBefore = 1700003600, nonce = ''0x123''\<rparr>" 1700000000000]
    validateTransferAuthorization_first_violation [of
      "\<lparr>auth_from = ''0xA'', auth_to = ''0xB'', auth_value = 1, validAfter = 0,
        validBefore = 1700003600, nonce = ''0x'' @ replicate 64 (CHR ''0'')\<rparr>" 1700000000000]
  by (simp add: unix_seconds_def)

text \<open>
  C10. The self-transfer check of validateTransferAuthorization is exact string equality,
  while validateCroTransaction compares the lower-cased addresses: every pair of addresses
  that differ as strings and agree after lower-casing passes the former (the other checks
  passing) without "Cannot transfer to self", and the latter rejects the same pair with
  "Cannot transfer to self". Such pairs exist: an address and its lower-cased spelling.
\<close>

theorem self_transfer_check_case_sensitive:
  assumes "from \<noteq> to" and "toLowerCase from = toLowerCase to"
    and "0 < v" and "unix_seconds now_ms < vb" and "va \<le> unix_seconds now_ms"
    and "length n = 66"
  shows "validateTransferAuthorization now_ms
           \<lparr>auth_from = from, auth_to = to, auth_value = v, validAfter = va,
            validBefore = vb, nonce = n\<rparr> = \<lparr>valid = True, error = None\<rparr> \<and>
         validateCroTransaction
           \<lparr>tx_from = from, tx_to = to, tx_value = v, chainId = cid, tx_nonce = tn,
            gasLimit = gl, maxFeePerGas = mf, maxPriorityFeePerGas = mp\<rparr> =
           \<lparr>valid = False, error = Some ''Cannot transfer to self''\<rparr>"
  using assms by (simp add: validateTransferAuthorization_def validateCroTransaction_def Let_def)

theorem self_transfer_check_case_sensitive_witness:
  "validateTransferAuthorization 1700000000000
     \<lparr>auth_from = ''0x742D35cC6634C0532925A3b844bc9E7595f0BEb8'',
      auth_to = ''0x742d35cc6634c0532925a3b844bc9e7595f0beb8'', auth_value = 1000000,
      validAfter = 0, validBefore = 1700003600,
      nonce = ''0x'' @ replicate 64 (CHR ''0'')\<rparr> = \<lparr>valid = True, error = None\<rparr> \<and>
   validateCroTransaction
     \<lparr>tx_from = ''0x742D35cC6634C0532925A3b844bc9E7595f0BEb8'',
      tx_to = ''0x742d35cc6634c0532925a3b844bc9e7595f0beb8'', tx_value = 1000000,
      chainId = 338, tx_nonce = None, gasLimit = Some 21000, maxFeePerGas = None,
      maxPriorityFeePerGas = None\<rparr> =
     \<lparr>valid = False, error = Some ''Cannot transfer to self''\<rparr>"
proof -
  have neq: "''0x742D35cC6634C0532925A3b844bc9E7595f0BEb8'' \<noteq>
             ''0x742d35cc6634c0532925a3b844bc9e7595f0beb8''"
    by simp
  have low: "toLowerCase ''0x742D35cC6634C0532925A3b844bc9E7595f0BEb8'' =
             toLowerCase ''0x742d35cc6634c0532925a3b844bc9e7595f0beb8''"
    by (simp add: toLowerCase_def toLowerCase_char_def)
  have window: "unix_seconds 1700000000000 < 1700003600" "0 \<le> unix_seconds 1700000000000"
    by (simp_all add: unix_seconds_def)
  have len: "length (''0x'' @ replicate 64 (CHR ''0'')) = 66"
    by simp
  show ?thesis
    using self_transfer_check_case_sensitive [OF neq low _ window len, of 1000000]
    by simp
qed

text \<open>
  C2. The validator is claimed to check every invariant of the data model, among them that
  \<open>to\<close> is not the zero address. It has no such check: an authorization to the zero address
  that meets the five checked conditions is accepted, while validateCroTransaction, the
  validator of the direct path, rejects the same recipient with "Cannot transfer to zero
  address".
\<close>

theorem validateTransferAuthorization_accepts_zero_address:
  "validateTransferAuthorization 1700000000000
     \<lparr>auth_from = ''0x742D35cC6634C0532925A3b844bc9E7595f0BEb8'',
      auth_to = CRO_ADDRESS, auth_value = 1000000,
      validAfter = 0, validBefore = 1700003600,
      nonce = ''0x'' @ replicate 64 (CHR ''0'')\<rparr> = \<lparr>valid = True, error = None\<rparr> \<and>
   validateCroTransaction
     \<lparr>tx_from = ''0x742D35cC6634C0532925A3b844bc9E7595f0BEb8'',
      tx_to = CRO_ADDRESS, tx_value = 1000000,
      chainId = 338, tx_nonce = None, gasLimit = Some 21000, maxFeePerGas = None,
      maxPriorityFeePerGas = None\<rparr> =
     \<lparr>valid = False, error = Some ''Cannot transfer to zero address''\<rparr>"
  by (simp add: validateTransferAuthorization_def validateCroTransaction_def Let_def
      unix_seconds_def CRO_ADDRESS_def toLowerCase_def toLowerCase_char_def)

section \<open>Properties of the builders\<close>

text \<open>
  C4. The conversion to base units is exact integer arithmetic at the asset's decimal scale.
  createTransferAuthorization carries, unchanged, the value that the conversion at 6 decimals
  gives for its amount string, and buildCroTransaction the value that the conversion at 18
  decimals gives; where the conversion throws, so does the builder. For an amount written as
  digits, optionally followed by a point and at most as many digits as the scale, that value
  is the integer part times \<open>10 ^ scale\<close> plus the fraction digits shifted to the scale.
  In particular the amount "1" gives 1000000 on the stable asset and \<open>10 ^ 18\<close> on the
  native asset.
\<close>

theorem amount_conversion_exact:
  "(\<forall>v. parseUnits amount 6 = Inr v \<longrightarrow>
      (\<exists>auth. createTransferAuthorization now_ms nonce_ms rng sender recipient amount validityWindow =
           Inr auth \<and> auth_value auth = v)) \<and>
   (\<forall>e. parseUnits amount 6 = Inl e \<longrightarrow>
      createTransferAuthorization now_ms nonce_ms rng sender recipient amount validityWindow = Inl e) \<and>
   (\<forall>v. parseUnits amount CRO_DECIMALS = Inr v \<longrightarrow>
      (\<exists>tx. buildCroTransaction sender recipient amount network = Inr tx \<and> tx_value tx = v)) \<and>
   (\<forall>e. parseUnits amount CRO_DECIMALS = Inl e \<longrightarrow>
      buildCroTransaction sender recipient amount network = Inl e) \<and>
   (list_all is_digit ip \<and> list_all is_digit fp \<and> length fp \<le> 6 \<and>
    (amount = ip @ ''.'' @ fp \<or> fp = [] \<and> amount = ip) \<longrightarrow>
      (\<exists>auth. createTransferAuthorization now_ms nonce_ms rng sender recipient amount validityWindow =
           Inr auth \<and>
         auth_value auth =
           int (BigInt_digits ip) * 10 ^ 6 + int (BigInt_digits fp) * 10 ^ (6 - length fp))) \<and>
   (list_all is_digit ip \<and> list_all is_digit fp \<and> length fp \<le> 18 \<and>
    (amount = ip @ ''.'' @ fp \<or> fp = [] \<and> amount = ip) \<longrightarrow>
      (\<exists>tx. buildCroTransaction sender recipient amount network = Inr tx \<and>
         tx_value tx =
           int (BigInt_digits ip) * 10 ^ 18 + int (BigInt_digits fp) * 10 ^ (18 - length fp))) \<and>
   (\<exists>auth. createTransferAuthorization now_ms nonce_ms rng sender recipient ''1'' validityWindow = Inr auth \<and>
      auth_value auth = 1000000) \<and>
   (\<exists>tx. buildCroTransaction sender recipient ''1'' network = Inr tx \<and> tx_value tx = 10 ^ 18)"
proof -
  have stable: "parseUnits amount 6 =
      Inr (int (BigInt_digits ip) * 10 ^ 6 + int (BigInt_digits fp) * 10 ^ (6 - length fp))"
    if "list_all is_digit ip" "list_all is_digit fp" "length fp \<le> 6"
      "amount = ip @ ''.'' @ fp \<or> fp = [] \<and> amount = ip"
    using that by (rule parseUnits_plain_decimal)
  have native: "parseUnits amount 18 =
      Inr (int (BigInt_digits ip) * 10 ^ 18 + int (BigInt_digits fp) * 10 ^ (18 - length fp))"
    if "list_all is_digit ip" "list_all is_digit fp" "length fp \<le> 18"
      "amount = ip @ ''.'' @ fp \<or> fp = [] \<and> amount = ip"
    using that by (rule parseUnits_plain_decimal)
  have c1: "\<forall>v. parseUnits amount 6 = Inr v \<longrightarrow>
      (\<exists>auth. createTransferAuthorization now_ms nonce_ms rng sender recipient amount validityWindow =
           Inr auth \<and> auth_value auth = v)"
    by (simp add: createTransferAuthorization_def Let_def)
  have c2: "\<forall>e. parseUnits amount 6 = Inl e \<longrightarrow>
      createTransferAuthorization now_ms nonce_ms rng sender recipient amount validityWindow = Inl e"
    by (simp add: createTransferAuthorization_def Let_def)
  have c3: "\<forall>v. parseUnits amount CRO_DECIMALS = Inr v \<longrightarrow>
      (\<exists>tx. buildCroTransaction sender recipient amount network = Inr tx \<and> tx_value tx = v)"
    by (simp add: buildCroTransaction_def)
  have c4: "\<forall>e. parseUnits amount CRO_DECIMALS = Inl e \<longrightarrow>
      buildCroTransaction sender recipient amount network = Inl e"
    by (simp add: buildCroTransaction_def)
  have c5: "list_all is_digit ip \<and> list_all is_digit fp \<and> length fp \<le> 6 \<and>
    (amount = ip @ ''.'' @ fp \<or> fp = [] \<and> amount = ip) \<longrightarrow>
      (\<exists>auth. createTransferAuthorization now_ms nonce_ms rng sender recipient amount validityWindow =
           Inr auth \<and>
         auth_value auth =
           int (BigInt_digits ip) * 10 ^ 6 + int (BigInt_digits fp) * 10 ^ (6 - length fp))"
    using stable by (simp add: createTransferAuthorization_def Let_def)
  have c6: "list_all is_digit ip \<and> list_all is_digit fp \<and> length fp \<le> 18 \<and>
    (amount = ip @ ''.'' @ fp \<or> fp = [] \<and> amount = ip) \<longrightarrow>
      (\<exists>tx. buildCroTransaction sender recipient amount network = Inr tx \<and>
         tx_value tx =
           int (BigInt_digits ip) * 10 ^ 18 + int (BigInt_digits fp) * 10 ^ (18 - length fp))"
    using native by (simp add: buildCroTransaction_def CRO_DECIMALS_def)
  have c7: "\<exists>auth. createTransferAuthorization now_ms nonce_ms rng sender recipient ''1'' validityWindow =
      Inr auth \<and> auth_value auth = 1000000"
    by (simp add: createTransferAuthorization_def parseUnits_1_6 Let_def)
  have c8: "\<exists>tx. buildCroTransaction sender recipient ''1'' network = Inr tx \<and> tx_value tx = 10 ^ 18"
    by (simp add: buildCroTransaction_def CRO_DECIMALS_def parseUnits_1_18)
  from c1 c2 c3 c4 c5 c6 c7 c8 show ?thesis
    by (intro conjI)
qed

theorem amount_conversion_exact_witness:
  "(\<exists>auth. createTransferAuthorization 1700000000000 1700000000001 zero_bytes payer_address
       recipient_address ''0.01'' None = Inr auth \<and> auth_value auth = 10000) \<and>
   (\<exists>tx. buildCroTransaction payer_address recipient_address ''0.01'' CRONOS_NETWORK_TESTNET =
       Inr tx \<and> tx_value tx = 10000000000000000) \<and>
   createTransferAuthorization 1700000000000 1700000000001 zero_bytes payer_address
     recipient_address ''1e3'' None = Inl (InvalidDecimalNumberError ''1e3'') \<and>
   buildCroTransaction payer_address recipient_address ''1e3'' CRONOS_NETWORK_TESTNET =
     Inl (InvalidDecimalNumberError ''1e3'')"
proof -
  have digits: "list_all is_digit ''0''" "list_all is_digit ''01''"
    by (simp_all add: is_digit_def)
  have written: "''0.01'' = ''0'' @ ''.'' @ ''01'' \<or> ''01'' = [] \<and> ''0.01'' = ''0''"
    by simp
  have malformed6: "parseUnits ''1e3'' 6 = Inl (InvalidDecimalNumberError ''1e3'')"
    and malformed18: "parseUnits ''1e3'' CRO_DECIMALS = Inl (InvalidDecimalNumberError ''1e3'')"
    by (simp_all add: parseUnits_def decimal_number_pattern_def is_digit_def)
  have decimal: "BigInt_digits ''0'' = 0" "BigInt_digits ''01'' = 1"
    by (simp_all add: BigInt_digits_def digit_val_def)
  note fact = amount_conversion_exact [where ip = "''0''" and fp = "''01''"
      and now_ms = 1700000000000 and nonce_ms = 1700000000001 and rng = zero_bytes
      and sender = payer_address and recipient = recipient_address and validityWindow = None
      and network = CRONOS_NETWORK_TESTNET]
  show ?thesis
    using digits written malformed6 malformed18 decimal
      fact [where amount = "''0.01''"] fact [where amount = "''1e3''"]
    by simp
qed

text \<open>
  C7. The builder is claimed to reject a non-positive amount before it returns an
  authorization. It checks nothing about the sign: for the amount "0" it returns an
  authorization of value 0.
\<close>

theorem createTransferAuthorization_zero_amount_counterexample:
  "parseUnits ''0'' 6 = Inr 0 \<and>
   createTransferAuthorization 1700000000000 1700000000000 zero_bytes payer_address
     recipient_address ''0'' None =
     Inr \<lparr>auth_from = payer_address, auth_to = recipient_address, auth_value = 0,
          validAfter = 0, validBefore = 1700003600,
          nonce = generateNonce 1700000000000 zero_bytes\<rparr>"
  by (simp add: createTransferAuthorization_def parseUnits_0_6 unix_seconds_def)

text \<open>
  C7, amended. createTransferAuthorization does not look at the sign of the amount: for every
  amount string that converts to a value \<open>v \<le> 0\<close> it returns an authorization carrying
  \<open>v\<close>. The value is refused only afterwards, by validateTransferAuthorization, with
  "Transfer amount must be positive".
\<close>

theorem createTransferAuthorization_keeps_nonpositive_amount:
  assumes "parseUnits amount 6 = Inr v" and "v \<le> 0"
  shows "\<exists>auth. createTransferAuthorization now_ms nonce_ms rng from to amount validityWindow =
             Inr auth \<and>
           auth_value auth = v \<and>
           validateTransferAuthorization check_ms auth =
             \<lparr>valid = False, error = Some ''Transfer amount must be positive''\<rparr>"
  using assms
  by (simp add: createTransferAuthorization_def validateTransferAuthorization_def Let_def)

theorem createTransferAuthorization_keeps_nonpositive_amount_witness:
  "\<exists>auth. createTransferAuthorization 1700000000000 1700000000000 zero_bytes payer_address
       recipient_address ''0'' None = Inr auth \<and>
     auth_value auth = 0 \<and>
     validateTransferAuthorization 1700000000000 auth =
       \<lparr>valid = False, error = Some ''Transfer amount must be positive''\<rparr>"
proof -
  have nonpositive: "(0::int) \<le> 0"
    by simp
  show ?thesis
    by (rule createTransferAuthorization_keeps_nonpositive_amount [OF parseUnits_0_6 nonpositive])
qed

text \<open>
  C9. What the builder returns passes the validator: for distinct addresses, an amount string
  that converts to a positive value and a positive validity window (the default of one hour
  when absent), the authorization returned by createTransferAuthorization is accepted by
  validateTransferAuthorization at the same clock reading, since its value is the positive
  converted value, \<open>validAfter = 0 \<le> now < validBefore = now + window\<close>, and its nonce is
  a 66-character string: the prefix "0x", then 16 hexadecimal digits that spell the
  millisecond clock reading of generateNonce (the 8-byte timestamp), then 48 hexadecimal
  digits that spell the 24 random bytes, two digits each and in their order. The clock reads
  a time at or after the epoch and within the range of JavaScript time values.
\<close>

theorem built_authorization_is_valid:
  assumes "sender \<noteq> recipient"
    and "parseUnits amount 6 = Inr v" and "0 < v"
    and "\<forall>w. validityWindow = Some w \<longrightarrow> 0 < w"
    and "0 \<le> now_ms" and "0 \<le> nonce_ms" and "nonce_ms \<le> 8640000000000000"
  shows "\<exists>auth timestampHex randomHex.
           createTransferAuthorization now_ms nonce_ms rng sender recipient amount
             validityWindow = Inr auth \<and>
           validateTransferAuthorization now_ms auth = \<lparr>valid = True, error = None\<rparr> \<and>
           auth_from auth = sender \<and> auth_to auth = recipient \<and>
           auth_value auth = v \<and> 0 < auth_value auth \<and> validAfter auth = 0 \<and>
           validBefore auth =
             unix_seconds now_ms + (case validityWindow of None \<Rightarrow> 3600 | Some w \<Rightarrow> w) \<and>
           length (nonce auth) = 66 \<and>
           nonce auth = ''0x'' @ timestampHex @ randomHex \<and>
           length timestampHex = 16 \<and> length randomHex = 48 \<and>
           list_all is_hex_digit timestampHex \<and> list_all is_hex_digit randomHex \<and>
           int (parseInt_hex timestampHex) = nonce_ms \<and>
           map (\<lambda>i. parseInt_hex (take 2 (drop (2 * i) randomHex))) [0..<24] =
             map (\<lambda>i. unat (rng i)) [0..<24]"
proof -
  have now: "0 \<le> unix_seconds now_ms"
    using assms(5) by (simp add: unix_seconds_def)
  have window: "0 < (case validityWindow of None \<Rightarrow> 3600 | Some w \<Rightarrow> w)"
    using assms(4) by (cases validityWindow) simp_all
  obtain timestampHex randomHex where
    nonce: "generateNonce nonce_ms rng = ''0x'' @ timestampHex @ randomHex"
    and parts: "length timestampHex = 16" "length randomHex = 48"
      "list_all is_hex_digit timestampHex" "list_all is_hex_digit randomHex"
      "int (parseInt_hex timestampHex) = nonce_ms"
      "map (\<lambda>i. parseInt_hex (take 2 (drop (2 * i) randomHex))) [0..<24] =
         map (\<lambda>i. unat (rng i)) [0..<24]"
    using generateNonce_composition [OF assms(6,7), of rng] by blast
  let ?auth = "\<lparr>auth_from = sender, auth_to = recipient, auth_value = v, validAfter = 0,
      validBefore = unix_seconds now_ms + (case validityWindow of None \<Rightarrow> 3600 | Some w \<Rightarrow> w),
      nonce = generateNonce nonce_ms rng\<rparr>"
  have built: "createTransferAuthorization now_ms nonce_ms rng sender recipient amount
      validityWindow = Inr ?auth"
    using assms(2) by (simp add: createTransferAuthorization_def Let_def)
  have len: "length (generateNonce nonce_ms rng) = 66"
    using nonce parts(1,2) by simp
  have accepted: "validateTransferAuthorization now_ms ?auth = \<lparr>valid = True, error = None\<rparr>"
    using assms(1,3) now window len
    by (simp add: validateTransferAuthorization_def Let_def)
  show ?thesis
    using built accepted assms(3) len nonce parts
    by (intro exI [of _ ?auth] exI [of _ timestampHex] exI [of _ randomHex]) simp
qed

theorem built_authorization_is_valid_witness:
  "\<exists>auth timestampHex randomHex.
     createTransferAuthorization 1700000000000 1700000000001 zero_bytes payer_address
       recipient_address ''1'' (Some 60) = Inr auth \<and>
     validateTransferAuthorization 1700000000000 auth = \<lparr>valid = True, error = None\<rparr> \<and>
     auth_from auth = payer_address \<and> auth_to auth = recipient_address \<and>
     auth_value auth = 1000000 \<and> 0 < auth_value auth \<and> validAfter auth = 0 \<and>
     validBefore auth = 1700000060 \<and>
     length (nonce auth) = 66 \<and>
     nonce auth = ''0x'' @ timestampHex @ randomHex \<and>
     length timestampHex = 16 \<and> length randomHex = 48 \<and>
     list_all is_hex_digit timestampHex \<and> list_all is_hex_digit randomHex \<and>
     int (parseInt_hex timestampHex) = 1700000000001 \<and>
     map (\<lambda>i. parseInt_hex (take 2 (drop (2 * i) randomHex))) [0..<24] = replicate 24 0"
proof -
  have distinct: "payer_address \<noteq> recipient_address"
    by (simp add: payer_address_def recipient_address_def)
  have positive: "(0::int) < 1000000"
    by simp
  have window: "\<forall>w. Some (60::int) = Some w \<longrightarrow> 0 < w"
    by simp
  have clock: "(0::int) \<le> 1700000000000" "(0::int) \<le> 1700000000001"
    "(1700000000001::int) \<le> 8640000000000000"
    by simp_all
  have bytes: "map (\<lambda>i. unat (zero_bytes i)) [0..<24] = replicate 24 0"
    by (simp add: zero_bytes_def map_replicate_const)
  show ?thesis
    using built_authorization_is_valid [OF distinct parseUnits_1_6 positive window clock,
        of zero_bytes]
    by (simp add: unix_seconds_def bytes)
qed

section \<open>Properties of the settlement client\<close>

lemma settle_calls_verify_only: "settle_calls [POST ENDPOINT_VERIFY body] = []"
  by (simp add: settle_calls_def ENDPOINT_VERIFY_def ENDPOINT_SETTLE_def)

text \<open>
  C1. For every network, token and signed authorization, verifyAndSettle calls settle only
  if the verify call before it returned \<open>valid = true\<close>. When verify returns
  \<open>valid = false\<close>, the calls made are exactly the one verify call, none goes to the settle
  endpoint, and the result has \<open>success = false\<close>, error "Verification failed" and the reason
  that verify returned.
\<close>

theorem verifyAndSettle_settles_only_when_verified:
  "(settle_calls (snd (verifyAndSettle fac network token authorization [])) \<noteq> [] \<longrightarrow>
      (\<exists>r. answer_verify fac (authorization_body network token authorization None) = Inr r \<and>
           vp_valid r)) \<and>
   (answer_verify fac (authorization_body network token authorization None) = Inr r \<and>
    \<not> vp_valid r \<longrightarrow>
      fst (verifyAndSettle fac network token authorization []) =
        Inr \<lparr>success = False, sp_txHash = None, sp_error = Some ''Verification failed'',
             sp_reason = vp_reason r\<rparr> \<and>
      snd (verifyAndSettle fac network token authorization []) =
        [POST ENDPOINT_VERIFY (authorization_body network token authorization None)] \<and>
      length (snd (verifyAndSettle fac network token authorization [])) = 1 \<and>
      settle_calls (snd (verifyAndSettle fac network token authorization [])) = [])"
  by (auto simp: verifyAndSettle_def verifyPayment_def settlePayment_def Let_def
      settle_calls_verify_only split: sum.splits)

theorem verifyAndSettle_settles_only_when_verified_witness:
  "settle_calls (snd (verifyAndSettle accepting_facilitator CRONOS_NETWORK_TESTNET
      USDC_ADDRESS_TESTNET signed_authorization [])) \<noteq> [] \<and>
   (\<exists>r. answer_verify accepting_facilitator
          (authorization_body CRONOS_NETWORK_TESTNET USDC_ADDRESS_TESTNET signed_authorization None)
          = Inr r \<and> vp_valid r) \<and>
   fst (verifyAndSettle rejecting_facilitator CRONOS_NETWORK_TESTNET USDC_ADDRESS_TESTNET
      signed_authorization []) =
     Inr \<lparr>success = False, sp_txHash = None, sp_error = Some ''Verification failed'',
          sp_reason = Some ''Nonce already used''\<rparr> \<and>
   length (snd (verifyAndSettle rejecting_facilitator CRONOS_NETWORK_TESTNET USDC_ADDRESS_TESTNET
      signed_authorization [])) = 1 \<and>
   settle_calls (snd (verifyAndSettle rejecting_facilitator CRONOS_NETWORK_TESTNET
      USDC_ADDRESS_TESTNET signed_authorization [])) = []"
proof -
  have called: "settle_calls (snd (verifyAndSettle accepting_facilitator CRONOS_NETWORK_TESTNET
      USDC_ADDRESS_TESTNET signed_authorization [])) \<noteq> []"
    by (simp add: verifyAndSettle_def verifyPayment_def settlePayment_def Let_def
        settle_calls_def accepting_facilitator_def ENDPOINT_VERIFY_def ENDPOINT_SETTLE_def)
  have rejected: "answer_verify rejecting_facilitator
      (authorization_body CRONOS_NETWORK_TESTNET USDC_ADDRESS_TESTNET signed_authorization None) =
      Inr \<lparr>vp_valid = False, vp_reason = Some ''Nonce already used'', vp_verificationId = None\<rparr>"
    by (simp add: rejecting_facilitator_def)
  show ?thesis
    using called rejected
      verifyAndSettle_settles_only_when_verified [where fac = accepting_facilitator
        and network = CRONOS_NETWORK_TESTNET and token = USDC_ADDRESS_TESTNET
        and authorization = signed_authorization]
      verifyAndSettle_settles_only_when_verified [where fac = rejecting_facilitator
        and network = CRONOS_NETWORK_TESTNET and token = USDC_ADDRESS_TESTNET
        and authorization = signed_authorization
        and r = "\<lparr>vp_valid = False, vp_reason = Some ''Nonce already used'',
                  vp_verificationId = None\<rparr>"]
    by (simp add: settle_calls_verify_only)
qed

section \<open>Properties of the direct-transfer verifier\<close>

lemma verifyCroPayment_after_recipient_check:
  assumes "getTransactionReceipt (getPublicClient network) txHash = Inr (Some receipt)"
    and "status receipt = Status_success"
    and "getTransaction (getPublicClient network) txHash = Inr (Some tx)"
    and "map_option toLowerCase (t_to tx) = Some (toLowerCase expectedRecipient)"
    and "parseUnits expectedAmount CRO_DECIMALS = Inr expectedValue"
  shows "verifyCroPayment getPublicClient txHash expectedRecipient expectedAmount network
           minConfirmations =
         (let minConf = (case minConfirmations of None \<Rightarrow> 2 | Some m \<Rightarrow> m) in
          if t_value tx < expectedValue then
            \<lparr>cv_valid = False, cv_txHash = Some txHash, cv_receipt = Some receipt,
             cv_error = Some ''Insufficient amount'',
             cv_reason = Some (''Expected '' @ formatUnits expectedValue CRO_DECIMALS @
               '' CRO, got '' @ formatUnits (t_value tx) CRO_DECIMALS @ '' CRO'')\<rparr>
          else
            (case getBlockNumber (getPublicClient network) of
               Inl e \<Rightarrow>
                 \<lparr>cv_valid = False, cv_txHash = None, cv_receipt = None,
                  cv_error = Some ''Verification failed'', cv_reason = Some (message e)\<rparr>
             | Inr currentBlock \<Rightarrow>
                 if currentBlock - blockNumber receipt < minConf then
                   \<lparr>cv_valid = False, cv_txHash = Some txHash, cv_receipt = Some receipt,
                    cv_error = Some ''Insufficient confirmations'',
                    cv_reason = Some (''Transaction has '' @
                      toString (currentBlock - blockNumber receipt) @
                      '' confirmations, need '' @ toString minConf)\<rparr>
                 else
                   \<lparr>cv_valid = True, cv_txHash = Some txHash, cv_receipt = Some receipt,
                    cv_error = None, cv_reason = None\<rparr>))"
  using assms
  by (simp add: verifyCroPayment_def verifyCroPayment_body_def Let_def split: sum.splits)

text \<open>
  C5. In verifyCroPayment the confirmations are the current block number minus the block
  number of the receipt. For every transaction that passes the receipt, status, recipient and
  amount checks, the result is the rejection "Insufficient confirmations", whose reason
  reports the actual and the required count, exactly when the confirmations are below
  \<open>minConfirmations\<close> (2 when absent); otherwise, so in particular when they are equal, the
  payment is accepted with the hash and the receipt.
\<close>

theorem verifyCroPayment_confirmations:
  assumes "getTransactionReceipt (getPublicClient network) txHash = Inr (Some receipt)"
    and "status receipt = Status_success"
    and "getTransaction (getPublicClient network) txHash = Inr (Some tx)"
    and "map_option toLowerCase (t_to tx) = Some (toLowerCase expectedRecipient)"
    and "parseUnits expectedAmount CRO_DECIMALS = Inr expectedValue"
    and "expectedValue \<le> t_value tx"
    and "getBlockNumber (getPublicClient network) = Inr currentBlock"
    and "minConf = (case minConfirmations of None \<Rightarrow> 2 | Some m \<Rightarrow> m)"
    and "confirmations = currentBlock - blockNumber receipt"
  shows "verifyCroPayment getPublicClient txHash expectedRecipient expectedAmount network
           minConfirmations =
         (if confirmations < minConf then
            \<lparr>cv_valid = False, cv_txHash = Some txHash, cv_receipt = Some receipt,
             cv_error = Some ''Insufficient confirmations'',
             cv_reason = Some (''Transaction has '' @ toString confirmations @
               '' confirmations, need '' @ toString minConf)\<rparr>
          else
            \<lparr>cv_valid = True, cv_txHash = Some txHash, cv_receipt = Some receipt,
             cv_error = None, cv_reason = None\<rparr>)"
  using assms(6-9) verifyCroPayment_after_recipient_check [where getPublicClient = getPublicClient
      and network = network and minConfirmations = minConfirmations, OF assms(1-5)]
  by (simp add: Let_def)

theorem verifyCroPayment_confirmations_witness:
  "verifyCroPayment (chain_at 101 100000000000000000) ''0xabc'' recipient_address ''0.1''
     CRONOS_NETWORK_TESTNET None =
     \<lparr>cv_valid = False, cv_txHash = Some ''0xabc'', cv_receipt = Some mined_receipt,
      cv_error = Some ''Insufficient confirmations'',
      cv_reason = Some ''Transaction has 1 confirmations, need 2''\<rparr> \<and>
   verifyCroPayment (chain_at 102 100000000000000000) ''0xabc'' recipient_address ''0.1''
     CRONOS_NETWORK_TESTNET None =
     \<lparr>cv_valid = True, cv_txHash = Some ''0xabc'', cv_receipt = Some mined_receipt,
      cv_error = None, cv_reason = None\<rparr>"
proof -
  let ?tx = "\<lparr>t_to = Some (toLowerCase recipient_address), t_value = 100000000000000000\<rparr>"
  have receipt: "getTransactionReceipt (chain_at head 100000000000000000 CRONOS_NETWORK_TESTNET)
      ''0xabc'' = Inr (Some mined_receipt)" for head
    by (simp add: chain_at_def)
  have ok: "status mined_receipt = Status_success"
    by (simp add: mined_receipt_def)
  have tx: "getTransaction (chain_at head 100000000000000000 CRONOS_NETWORK_TESTNET)
      ''0xabc'' = Inr (Some ?tx)" for head
    by (simp add: chain_at_def)
  have recipient: "map_option toLowerCase (t_to ?tx) = Some (toLowerCase recipient_address)"
    by (simp add: toLowerCase_recipient)
  have amount: "parseUnits ''0.1'' CRO_DECIMALS = Inr 100000000000000000"
    by (simp add: CRO_DECIMALS_def parseUnits_tenth_18)
  have paid: "100000000000000000 \<le> t_value ?tx"
    by simp
  have head: "getBlockNumber (chain_at head 100000000000000000 CRONOS_NETWORK_TESTNET) = Inr head"
    for head
    by (simp add: chain_at_def)
  have default: "(2::int) = (case None of None \<Rightarrow> 2 | Some m \<Rightarrow> m)"
    by simp
  have one: "(1::int) = 101 - blockNumber mined_receipt"
    and two: "(2::int) = 102 - blockNumber mined_receipt"
    by (simp_all add: mined_receipt_def)
  show ?thesis
    using
      verifyCroPayment_confirmations [where getPublicClient = "chain_at 101 100000000000000000"
        and network = CRONOS_NETWORK_TESTNET, OF receipt ok tx recipient amount paid head default one]
      verifyCroPayment_confirmations [where getPublicClient = "chain_at 102 100000000000000000"
        and network = CRONOS_NETWORK_TESTNET, OF receipt ok tx recipient amount paid head default two]
    by (simp add: toString_radix_def digits.simps digit_char_def)
qed

text \<open>
  C6. In verifyCroPayment the expected amount is converted to base units at the native
  asset's 18 decimals and the transferred value must be at least that: once the receipt,
  status and recipient checks pass, an underpayment is rejected with "Insufficient amount" and
  a reason that spells out the expected and the actual amount through formatUnits, while a
  payment of the expected value or more is never rejected for its amount, and is accepted
  when the confirmations suffice.
\<close>

theorem verifyCroPayment_amount:
  assumes "getTransactionReceipt (getPublicClient network) txHash = Inr (Some receipt)"
    and "status receipt = Status_success"
    and "getTransaction (getPublicClient network) txHash = Inr (Some tx)"
    and "map_option toLowerCase (t_to tx) = Some (toLowerCase expectedRecipient)"
    and "parseUnits expectedAmount CRO_DECIMALS = Inr expectedValue"
    and "minConf = (case minConfirmations of None \<Rightarrow> 2 | Some m \<Rightarrow> m)"
  shows "(t_value tx < expectedValue \<longrightarrow>
            verifyCroPayment getPublicClient txHash expectedRecipient expectedAmount network
              minConfirmations =
            \<lparr>cv_valid = False, cv_txHash = Some txHash, cv_receipt = Some receipt,
             cv_error = Some ''Insufficient amount'',
             cv_reason = Some (''Expected '' @ formatUnits expectedValue CRO_DECIMALS @
               '' CRO, got '' @ formatUnits (t_value tx) CRO_DECIMALS @ '' CRO'')\<rparr>) \<and>
         (expectedValue \<le> t_value tx \<longrightarrow>
            cv_error (verifyCroPayment getPublicClient txHash expectedRecipient expectedAmount
              network minConfirmations) \<noteq> Some ''Insufficient amount'' \<and>
            (\<forall>currentBlock. getBlockNumber (getPublicClient network) = Inr currentBlock \<and>
               minConf \<le> currentBlock - blockNumber receipt \<longrightarrow>
               verifyCroPayment getPublicClient txHash expectedRecipient expectedAmount network
                 minConfirmations =
               \<lparr>cv_valid = True, cv_txHash = Some txHash, cv_receipt = Some receipt,
                cv_error = None, cv_reason = None\<rparr>))"
  using assms(6) verifyCroPayment_after_recipient_check [where getPublicClient = getPublicClient
      and network = network and minConfirmations = minConfirmations, OF assms(1-5)]
  by (auto simp: Let_def split: sum.splits)

theorem verifyCroPayment_amount_witness:
  "verifyCroPayment (chain_at 102 50000000000000000) ''0xabc'' recipient_address ''0.1''
     CRONOS_NETWORK_TESTNET None =
     \<lparr>cv_valid = False, cv_txHash = Some ''0xabc'', cv_receipt = Some mined_receipt,
      cv_error = Some ''Insufficient amount'',
      cv_reason = Some ''Expected 0.1 CRO, got 0.05 CRO''\<rparr> \<and>
   verifyCroPayment (chain_at 102 200000000000000000) ''0xabc'' recipient_address ''0.1''
     CRONOS_NETWORK_TESTNET None =
     \<lparr>cv_valid = True, cv_txHash = Some ''0xabc'', cv_receipt = Some mined_receipt,
      cv_error = None, cv_reason = None\<rparr>"
proof -
  have receipt: "getTransactionReceipt (chain_at 102 paid CRONOS_NETWORK_TESTNET)
      ''0xabc'' = Inr (Some mined_receipt)" for paid
    by (simp add: chain_at_def)
  have ok: "status mined_receipt = Status_success"
    by (simp add: mined_receipt_def)
  have tx: "getTransaction (chain_at 102 paid CRONOS_NETWORK_TESTNET) ''0xabc'' =
      Inr (Some \<lparr>t_to = Some (toLowerCase recipient_address), t_value = paid\<rparr>)" for paid
    by (simp add: chain_at_def)
  have recipient: "map_option toLowerCase
      (t_to \<lparr>t_to = Some (toLowerCase recipient_address), t_value = paid\<rparr>) =
      Some (toLowerCase recipient_address)" for paid :: int
    by (simp add: toLowerCase_recipient)
  have amount: "parseUnits ''0.1'' CRO_DECIMALS = Inr 100000000000000000"
    by (simp add: CRO_DECIMALS_def parseUnits_tenth_18)
  have default: "(2::int) = (case None of None \<Rightarrow> 2 | Some m \<Rightarrow> m)"
    by simp
  have head: "getBlockNumber (chain_at 102 200000000000000000 CRONOS_NETWORK_TESTNET) = Inr 102"
    by (simp add: chain_at_def)
  have deep: "(2::int) \<le> 102 - blockNumber mined_receipt"
    by (simp add: mined_receipt_def)
  show ?thesis
    using head deep
      verifyCroPayment_amount [where getPublicClient = "chain_at 102 50000000000000000"
        and network = CRONOS_NETWORK_TESTNET, OF receipt ok tx recipient amount default]
      verifyCroPayment_amount [where getPublicClient = "chain_at 102 200000000000000000"
        and network = CRONOS_NETWORK_TESTNET, OF receipt ok tx recipient amount default]
    by (simp add: CRO_DECIMALS_def formatUnits_tenth_18 formatUnits_twentieth_18)
qed

section \<open>Properties of the capability check\<close>

lemma userHasWallets_iff:
  "userHasWallets db userId \<longleftrightarrow> (\<exists>w \<in> set db. w_userId w = userId \<and> w_isActive w)"
proof -
  have "take 1 xs \<noteq> [] \<longleftrightarrow> xs \<noteq> []" for xs :: "user_wallet list"
    by (cases xs) simp_all
  then show ?thesis
    by (auto simp: userHasWallets_def Let_def filter_empty_conv)
qed

text \<open>
  C8. canSign is claimed to be true exactly when the payer has an active wallet, the network
  is a Cronos network and the asset is the network's USDC.e address (case-insensitively) or
  the zero-address sentinel of the native asset. The asset "0x0" is neither, and canSign is
  true for it.
\<close>

theorem canSign_short_zero_counterexample:
  "canSign [\<lparr>w_userId = ''user-1'', w_walletAddress = payer_address, w_isActive = True\<rparr>]
     ''user-1''
     \<lparr>pr_network = CRONOS_NETWORK_MAINNET, pr_maxAmountRequired = ''0.1'',
      pr_payTo = recipient_address, pr_asset = ''0x0''\<rparr> \<and>
   toLowerCase ''0x0'' \<noteq> toLowerCase (getUsdcAddress CRONOS_NETWORK_MAINNET) \<and>
   ''0x0'' \<noteq> CRO_ADDRESS \<and>
   toLowerCase ''0x0'' \<noteq> toLowerCase CRO_ADDRESS"
  by (simp add: canSign_def userHasWallets_def isCronosNetwork_def getUsdcAddress_def
      CRONOS_NETWORK_MAINNET_def USDC_ADDRESS_MAINNET_def CRO_ADDRESS_def Let_def
      toLowerCase_def toLowerCase_char_def)

text \<open>
  C8, amended. canSign returns true exactly when the payer has at least one active wallet,
  the requirement's network is one of the two Cronos networks, and the requirement's asset
  is, compared case-insensitively, the USDC.e address of that network or the zero address of
  the native asset, or is the short form "0x0" of the latter; otherwise it returns false.
\<close>

theorem canSign_iff:
  "canSign db user_id paymentRequirement \<longleftrightarrow>
     (\<exists>w \<in> set db. w_userId w = user_id \<and> w_isActive w) \<and>
     isCronosNetwork (pr_network paymentRequirement) \<and>
     (toLowerCase (pr_asset paymentRequirement) =
        toLowerCase (getUsdcAddress (pr_network paymentRequirement)) \<or>
      toLowerCase (pr_asset paymentRequirement) = toLowerCase CRO_ADDRESS \<or>
      pr_asset paymentRequirement = ''0x0'')"
  by (auto simp: canSign_def userHasWallets_iff Let_def)

theorem canSign_iff_witness:
  "canSign [\<lparr>w_userId = ''user-1'', w_walletAddress = payer_address, w_isActive = True\<rparr>]
     ''user-1''
     \<lparr>pr_network = CRONOS_NETWORK_TESTNET, pr_maxAmountRequired = ''0.1'',
      pr_payTo = recipient_address, pr_asset = toLowerCase USDC_ADDRESS_TESTNET\<rparr> \<and>
   \<not> canSign [\<lparr>w_userId = ''user-1'', w_walletAddress = payer_address, w_isActive = False\<rparr>]
     ''user-1''
     \<lparr>pr_network = CRONOS_NETWORK_TESTNET, pr_maxAmountRequired = ''0.1'',
      pr_payTo = recipient_address, pr_asset = toLowerCase USDC_ADDRESS_TESTNET\<rparr>"
  using
    canSign_iff [of "[\<lparr>w_userId = ''user-1'', w_walletAddress = payer_address, w_isActive = True\<rparr>]"
      "''user-1''" "\<lparr>pr_network = CRONOS_NETWORK_TESTNET, pr_maxAmountRequired = ''0.1'',
      pr_payTo = recipient_address, pr_asset = toLowerCase USDC_ADDRESS_TESTNET\<rparr>"]
    canSign_iff [of "[\<lparr>w_userId = ''user-1'', w_walletAddress = payer_address, w_isActive = False\<rparr>]"
      "''user-1''" "\<lparr>pr_network = CRONOS_NETWORK_TESTNET, pr_maxAmountRequired = ''0.1'',
      pr_payTo = recipient_address, pr_asset = toLowerCase USDC_ADDRESS_TESTNET\<rparr>"]
  by (simp add: isCronosNetwork_def getUsdcAddress_def CRONOS_NETWORK_MAINNET_def
      CRONOS_NETWORK_TESTNET_def USDC_ADDRESS_TESTNET_def toLowerCase_def toLowerCase_char_def)

end
